theory Spec2Isabelle
  imports Main
begin

section \<open>The Raspberry Pi Telegram bot: relays, display and run loop\<close>

text \<open>
  A shallow embedding of \<^verbatim>\<open>src/raspberry_pi_telegram_bot.py\<close>. The handlers of the
  script act on three devices: the GPIO lines that drive the relay board, the character
  display, and the Telegram client. Each device call becomes a function on an explicit
  \<open>world\<close>; a Python exception becomes a value, returned together with the world as it
  was when the exception was raised.
\<close>

subsection \<open>Python values\<close>

datatype py_error = ValueError | KeyError | RuntimeError | TypeError

text \<open>A handler either returns or raises.\<close>

datatype outcome = Return | Raise py_error

text \<open>
  Pin levels: \<^verbatim>\<open>GPIO.HIGH\<close> is 1 and \<^verbatim>\<open>GPIO.LOW\<close> is 0, and the script only tests the
  truth value of a reading.
\<close>

abbreviation (input) HIGH :: bool where "HIGH \<equiv> True"
abbreviation (input) LOW :: bool where "LOW \<equiv> False"

definition nl :: string where
  "nl = [CHR 0x0A]"

definition tab :: string where
  "tab = [CHR 0x09]"

definition apostrophe :: string where
  "apostrophe = [CHR 0x27]"

subsubsection \<open>The builtin \<^verbatim>\<open>int\<close> on a string\<close>

text \<open>
  \<^verbatim>\<open>int(s)\<close> in base ten: surrounding whitespace is dropped, one sign is allowed, and
  the rest is a non-empty run of decimal digits in which single underscores may separate
  digits. Anything else raises \<^verbatim>\<open>ValueError\<close>. Characters are code points below 256;
  among them the whitespace that \<^verbatim>\<open>int\<close> accepts is tab, line feed, vertical tab, form
  feed, carriage return, space, U+0085 and U+00A0.
\<close>

definition is_space :: "char \<Rightarrow> bool" where
  "is_space c \<longleftrightarrow> c \<in> set [CHR 0x09, CHR 0x0A, CHR 0x0B, CHR 0x0C, CHR 0x0D, CHR 0x20,
                             CHR 0x85, CHR 0xA0]"

definition is_digit :: "char \<Rightarrow> bool" where
  "is_digit c \<longleftrightarrow> c \<in> set ''0123456789''"

definition digit_val :: "char \<Rightarrow> nat" where
  "digit_val c = of_char c - 48"

definition strip :: "string \<Rightarrow> string" where
  "strip s = rev (dropWhile is_space (rev (dropWhile is_space s)))"

fun py_digits :: "nat \<Rightarrow> string \<Rightarrow> nat option" where
  "py_digits acc [] = Some acc"
| "py_digits acc [c] = (if is_digit c then Some (10 * acc + digit_val c) else None)"
| "py_digits acc (c # d # ds) =
     (if is_digit c then py_digits (10 * acc + digit_val c) (d # ds)
      else if c = CHR ''_'' \<and> is_digit d then py_digits (10 * acc + digit_val d) ds
      else None)"

definition py_unsigned :: "string \<Rightarrow> nat option" where
  "py_unsigned s =
     (case s of
        [] \<Rightarrow> None
      | c # cs \<Rightarrow> if is_digit c then py_digits (digit_val c) cs else None)"

definition py_int :: "string \<Rightarrow> py_error + int" where
  "py_int s =
     (let t = strip s;
          r = (case t of
                 [] \<Rightarrow> None
               | c # cs \<Rightarrow>
                   if c = CHR ''-'' then map_option (\<lambda>n. - int n) (py_unsigned cs)
                   else if c = CHR ''+'' then map_option int (py_unsigned cs)
                   else map_option int (py_unsigned t))
      in case r of None \<Rightarrow> Inl ValueError | Some i \<Rightarrow> Inr i)"

subsubsection \<open>The format \<^verbatim>\<open>{n:d}\<close> of an f-string\<close>

definition digit_char :: "nat \<Rightarrow> char" where
  "digit_char n = char_of (48 + n)"

fun show_nat :: "nat \<Rightarrow> string" where
  "show_nat n = (if n < 10 then [digit_char n] else show_nat (n div 10) @ [digit_char (n mod 10)])"

declare show_nat.simps [simp del]

definition show_int :: "int \<Rightarrow> string" where
  "show_int i = (if i < 0 then CHR ''-'' # show_nat (nat (- i)) else show_nat (nat i))"

subsubsection \<open>\<^verbatim>\<open>str.startswith\<close>\<close>

definition startswith :: "string \<Rightarrow> string \<Rightarrow> bool" where
  "startswith s p \<longleftrightarrow> take (length p) s = p"

subsection \<open>Telegram objects\<close>

text \<open>
  The fields of an incoming message that the handlers read: \<^verbatim>\<open>message.message_id\<close>
  (used by \<^verbatim>\<open>reply_to\<close>), \<^verbatim>\<open>message.chat.id\<close>, and the sender's names. Telegram users
  need not have a last name, and the client then gives \<^verbatim>\<open>None\<close>.
\<close>

record message =
  message_id :: int
  chat_id :: int
  first_name :: string
  last_name :: "string option"

record callback_query =
  query_id :: string
  query_data :: string
  query_message :: message

text \<open>An inline keyboard is rows of buttons; a button opens a link or carries callback data.\<close>

datatype button = Url_button string string | Callback_button string string

type_synonym keyboard = "button list list"

subsection \<open>The world: GPIO lines, display, Telegram client\<close>

text \<open>Every device call that takes place is recorded, in order, in the world's trace.\<close>

datatype effect =
    Gpio_setmode
  | Gpio_setup int bool
  | Gpio_input int
  | Gpio_output int bool
  | Gpio_cleanup
  | Mcp_output nat bool
  | Lcd_begin nat nat
  | Lcd_clear
  | Lcd_message string
  | Lcd_backlight bool
  | Reply_to int int string
  | Send_message int string "keyboard option"
  | Answer_callback_query string

text \<open>
  \<open>gpio_mode\<close>: whether \<^verbatim>\<open>GPIO.setmode(GPIO.BCM)\<close> is in force.
  \<open>channels\<close>: the BCM channels set up as outputs, each with the level it drives.
  \<open>lcd_text\<close>: what has been written to the display since it was last cleared.
  \<open>lcd_backlight\<close>: the attribute \<^verbatim>\<open>lcd.backlight\<close>.
  \<open>mcp_pins\<close>: the output lines of the PCF8574 adapter (line 3 is the backlight).
\<close>

record world =
  gpio_mode :: bool
  channels :: "int \<rightharpoonup> bool"
  lcd_text :: string
  lcd_backlight :: bool
  mcp_pins :: "nat \<rightharpoonup> bool"
  trace :: "effect list"

definition emit :: "effect \<Rightarrow> world \<Rightarrow> world" where
  "emit e w = w\<lparr>trace := trace w @ [e]\<rparr>"

subsubsection \<open>RPi.GPIO\<close>

text \<open>
  The operations of the RPi.GPIO library that the script calls, by the library's
  contract: a channel must be set up before it is read or written (\<^verbatim>\<open>RuntimeError\<close>
  otherwise), and \<^verbatim>\<open>cleanup\<close> releases every channel the program has set up and
  forgets the numbering mode. It does not write a level to any channel.
\<close>

definition GPIO_setmode :: "world \<Rightarrow> world" where
  "GPIO_setmode w = emit Gpio_setmode (w\<lparr>gpio_mode := True\<rparr>)"

definition GPIO_setup :: "int \<Rightarrow> bool \<Rightarrow> world \<Rightarrow> py_error + world" where
  "GPIO_setup pin initial w =
     (if gpio_mode w
      then Inr (emit (Gpio_setup pin initial) (w\<lparr>channels := (channels w)(pin \<mapsto> initial)\<rparr>))
      else Inl RuntimeError)"

definition GPIO_input :: "int \<Rightarrow> world \<Rightarrow> py_error + bool \<times> world" where
  "GPIO_input pin w =
     (case channels w pin of
        None \<Rightarrow> Inl RuntimeError
      | Some lv \<Rightarrow> Inr (lv, emit (Gpio_input pin) w))"

definition GPIO_output :: "int \<Rightarrow> bool \<Rightarrow> world \<Rightarrow> py_error + world" where
  "GPIO_output pin lv w =
     (case channels w pin of
        None \<Rightarrow> Inl RuntimeError
      | Some _ \<Rightarrow> Inr (emit (Gpio_output pin lv) (w\<lparr>channels := (channels w)(pin \<mapsto> lv)\<rparr>)))"

definition GPIO_cleanup :: "world \<Rightarrow> world" where
  "GPIO_cleanup w = emit Gpio_cleanup (w\<lparr>gpio_mode := False, channels := Map.empty\<rparr>)"

subsubsection \<open>The display\<close>

text \<open>
  Modelled from the spec: the driver modules \<^verbatim>\<open>Adafruit_LCD1602\<close> and \<^verbatim>\<open>PCF8574\<close> are
  not among the sources. The display is the spec's two-line text sink: \<^verbatim>\<open>clear()\<close>
  blanks it and \<^verbatim>\<open>message(text)\<close> appends text; \<^verbatim>\<open>begin\<close> sets the geometry.
\<close>

definition lcd_clear :: "world \<Rightarrow> world" where
  "lcd_clear w = emit Lcd_clear (w\<lparr>lcd_text := []\<rparr>)"

definition lcd_message :: "string \<Rightarrow> world \<Rightarrow> world" where
  "lcd_message t w = emit (Lcd_message t) (w\<lparr>lcd_text := lcd_text w @ t\<rparr>)"

definition lcd_begin :: "nat \<Rightarrow> nat \<Rightarrow> world \<Rightarrow> world" where
  "lcd_begin cols lines w = emit (Lcd_begin cols lines) w"

definition lcd_set_backlight :: "bool \<Rightarrow> world \<Rightarrow> world" where
  "lcd_set_backlight b w = emit (Lcd_backlight b) (w\<lparr>lcd_backlight := b\<rparr>)"

definition mcp_output :: "nat \<Rightarrow> bool \<Rightarrow> world \<Rightarrow> world" where
  "mcp_output pin b w = emit (Mcp_output pin b) (w\<lparr>mcp_pins := (mcp_pins w)(pin \<mapsto> b)\<rparr>)"

subsubsection \<open>The Telegram client\<close>

text \<open>
  The calls of \<^verbatim>\<open>telebot.TeleBot\<close> that the handlers make. Each queues one request to
  the Telegram API; \<^verbatim>\<open>reply_to(message, text)\<close> sends to the message's chat, quoting it.
\<close>

definition bot_reply_to :: "message \<Rightarrow> string \<Rightarrow> world \<Rightarrow> world" where
  "bot_reply_to m t w = emit (Reply_to (chat_id m) (message_id m) t) w"

definition bot_send_message :: "int \<Rightarrow> string \<Rightarrow> keyboard option \<Rightarrow> world \<Rightarrow> world" where
  "bot_send_message chat t markup w = emit (Send_message chat t markup) w"

definition bot_answer_callback_query :: "string \<Rightarrow> world \<Rightarrow> world" where
  "bot_answer_callback_query qid w = emit (Answer_callback_query qid) w"

subsection \<open>Module constants\<close>

text \<open>
  \<^verbatim>\<open>dict_relay_bcm\<close>: relay identifier to BCM pin, in the order the dictionary is
  written (a Python dictionary iterates in insertion order).
\<close>

definition dict_relay_bcm :: "(int \<times> int) list" where
  "dict_relay_bcm = [(1, 23), (2, 24), (3, 25), (4, 16)]"

text \<open>
  The emoji of the replies. \<^verbatim>\<open>emoji.emojize\<close> turns each alias into one glyph; the model
  keeps the alias as the text.
\<close>

definition em_bulb :: string where
  "em_bulb = '':bulb:''"

definition em_status_changed :: string where
  "em_status_changed = '':thumbsup:''"

definition em_status_on :: string where
  "em_status_on = '':red_circle:''"

definition em_status_off :: string where
  "em_status_off = '':black_circle:''"

subsection \<open>Command handlers\<close>

text \<open>\<^verbatim>\<open>/start\<close>. Joining the names raises \<^verbatim>\<open>TypeError\<close> when the last name is \<^verbatim>\<open>None\<close>.\<close>

definition start_command :: "message \<Rightarrow> world \<Rightarrow> outcome \<times> world" where
  "start_command m w =
     (let w1 = bot_reply_to m
                 (''Hi! I am the Raspberry Pi 3 Model B+ Telegram Bot made by Antonio Musarra''
                    @ apostrophe @ ''s Blog.'' @ nl
                  @ ''If you want more information on how to use this bot, use the /help command and''
                    @ nl
                  @ ''if you want to learn more, read the article https://www.dontesta.it'') w;
          w2 = lcd_clear w1;
          w3 = lcd_message (''Welcome on Bot!'' @ nl) w2
      in case last_name m of
           None \<Rightarrow> (Raise TypeError, w3)
         | Some ln \<Rightarrow> (Return, lcd_message (first_name m @ '' '' @ ln) w3))"

text \<open>\<^verbatim>\<open>/help\<close>.\<close>

definition help_command :: "message \<Rightarrow> world \<Rightarrow> outcome \<times> world" where
  "help_command m w =
     (let keyboard = [[Url_button ''Go to the developer article'' ''https://www.dontesta.it'']];
          w1 = bot_send_message (chat_id m)
                 (''This bot implements the architecture shown in the figure ''
                    @ ''https://bit.ly/ArchitetturaRaspberryPiTelegramBot'' @ nl
                  @ ''Through this bot it is possible:'' @ nl @ nl
                  @ tab @ ''1) Activate and Deactivate one of the four relays using the command ''
                    @ ''/set_relay_status'' @ nl
                  @ tab @ ''2) Check the status of the four relays using the command ''
                    @ ''/get_relay_status'' @ nl
                  @ tab @ ''3) View schema design using the command /get_schema_design'' @ nl @ nl)
                 (Some keyboard) w;
          w2 = lcd_clear w1;
          w3 = lcd_message (''Request Command'' @ nl) w2
      in (Return, lcd_message ''/help'' w3))"

text \<open>\<^verbatim>\<open>/set_relay_status\<close>: offers one button per relay; no pin is touched.\<close>

definition set_relay_status_command :: "message \<Rightarrow> world \<Rightarrow> outcome \<times> world" where
  "set_relay_status_command m w =
     (let keyboard =
            [[Callback_button (em_bulb @ '' Relay 1'') ''relay-1'',
              Callback_button (em_bulb @ '' Relay 2'') ''relay-2''],
             [Callback_button (em_bulb @ '' Relay 3'') ''relay-3'',
              Callback_button (em_bulb @ '' Relay 4'') ''relay-4'']];
          w1 = bot_send_message (chat_id m)
                 (''Select one of the Relays for which to change state.'' @ nl
                  @ ''After change state you can view the new state with '' @ nl
                  @ ''the command /get_relay_status'')
                 (Some keyboard) w;
          w2 = lcd_clear w1;
          w3 = lcd_message (''Request Command'' @ nl) w2
      in (Return, lcd_message ''/set_relay_status'' w3))"

text \<open>
  \<^verbatim>\<open>/get_relay_status\<close>. The loop over \<^verbatim>\<open>dict_relay_bcm.items()\<close>: a HIGH reading is
  reported with \<open>em_status_off\<close>, a LOW reading with \<open>em_status_on\<close>.
\<close>

definition status_text :: "int \<Rightarrow> bool \<Rightarrow> string" where
  "status_text relay_id lv =
     ''Status of the RelayId '' @ show_int relay_id @ '' ''
       @ (if lv then em_status_off else em_status_on)"

fun status_loop :: "(int \<times> int) list \<Rightarrow> int \<Rightarrow> world \<Rightarrow> outcome \<times> world" where
  "status_loop [] chat w = (Return, w)"
| "status_loop ((relay_id, bcm_value) # rest) chat w =
     (case GPIO_input bcm_value w of
        Inl e \<Rightarrow> (Raise e, w)
      | Inr (lv, w1) \<Rightarrow>
          status_loop rest chat (bot_send_message chat (status_text relay_id lv) None w1))"

definition get_relay_status_command :: "message \<Rightarrow> world \<Rightarrow> outcome \<times> world" where
  "get_relay_status_command m w =
     (case status_loop dict_relay_bcm (chat_id m) w of
        (Raise e, w1) \<Rightarrow> (Raise e, w1)
      | (Return, w1) \<Rightarrow>
          (let w2 = lcd_clear w1;
               w3 = lcd_message (''Request Command'' @ nl) w2
           in (Return, lcd_message ''/get_relay_status'' w3)))"

text \<open>\<^verbatim>\<open>/get_schema_design\<close>.\<close>

definition get_schema_design_command :: "message \<Rightarrow> world \<Rightarrow> outcome \<times> world" where
  "get_schema_design_command m w =
     (let w1 = bot_reply_to m
                 (''This is the wiring diagram behind this Telegram bot''
                  @ '' https://bit.ly/SchemaElettricoRaspberryPiTelegramBot'') w;
          w2 = lcd_clear w1;
          w3 = lcd_message (''Request Command'' @ nl) w2
      in (Return, lcd_message ''/get_schema_design'' w3))"

subsection \<open>The inline button handler\<close>

definition send_set_relay_status_result :: "message \<Rightarrow> int \<Rightarrow> bool \<Rightarrow> world \<Rightarrow> world" where
  "send_set_relay_status_result m relay_id active w =
     (let emoji = (if active then em_status_on else em_status_off)
      in bot_send_message (chat_id m)
           (emoji @ '' Changed status of the RelayId '' @ show_int relay_id @ '' ''
              @ em_status_changed) None w)"

text \<open>
  \<^verbatim>\<open>set_relay_status_callback\<close>. The identifier is parsed from the data after its first
  six characters; the second log line looks the pin up in \<^verbatim>\<open>dict_relay_bcm\<close>, which raises
  \<^verbatim>\<open>KeyError\<close> for an identifier that is not a key. The log lines themselves only write
  to the log. On a HIGH reading the pin is written LOW and then the display is updated;
  on a LOW reading the display is updated and then the pin is written HIGH. The
  acknowledgment and the reply come last.
\<close>

definition set_relay_status_callback :: "callback_query \<Rightarrow> world \<Rightarrow> outcome \<times> world" where
  "set_relay_status_callback query w =
     (case py_int (drop 6 (query_data query)) of
        Inl e \<Rightarrow> (Raise e, w)
      | Inr relay_id \<Rightarrow>
         (case map_of dict_relay_bcm relay_id of
            None \<Rightarrow> (Raise KeyError, w)
          | Some pin \<Rightarrow>
             (case GPIO_input pin w of
                Inl e \<Rightarrow> (Raise e, w)
              | Inr (lv, w1) \<Rightarrow>
                 if lv then
                   (case GPIO_output pin LOW w1 of
                      Inl e \<Rightarrow> (Raise e, w1)
                    | Inr w2 \<Rightarrow>
                       (let w3 = lcd_clear w2;
                            w4 = lcd_message (''Act. Relay '' @ show_int relay_id @ nl) w3;
                            w5 = lcd_message ''In listening...'' w4;
                            w6 = bot_answer_callback_query (query_id query) w5
                        in (Return,
                            send_set_relay_status_result (query_message query) relay_id True w6)))
                 else
                   (let w2 = lcd_clear w1;
                        w3 = lcd_message (''De Act. Relay '' @ show_int relay_id @ nl) w2;
                        w4 = lcd_message ''In listening...'' w3
                    in case GPIO_output pin HIGH w4 of
                         Inl e \<Rightarrow> (Raise e, w4)
                       | Inr w5 \<Rightarrow>
                          (let w6 = bot_answer_callback_query (query_id query) w5
                           in (Return,
                               send_set_relay_status_result (query_message query) relay_id False
                                 w6))))))"

definition inline_query_callback :: "callback_query \<Rightarrow> world \<Rightarrow> outcome \<times> world" where
  "inline_query_callback query w =
     (let data = query_data query
      in if startswith data ''relay-'' then set_relay_status_callback query w
         else (Return, w))"

subsection \<open>Start-up, shutdown and the run loop\<close>

definition initialize_relay :: "world \<Rightarrow> outcome \<times> world" where
  "initialize_relay w =
     (let w0 = GPIO_setmode w
      in case GPIO_setup 23 HIGH w0 of Inl e \<Rightarrow> (Raise e, w0) | Inr w1 \<Rightarrow>
         (case GPIO_setup 24 HIGH w1 of Inl e \<Rightarrow> (Raise e, w1) | Inr w2 \<Rightarrow>
         (case GPIO_setup 25 HIGH w2 of Inl e \<Rightarrow> (Raise e, w2) | Inr w3 \<Rightarrow>
         (case GPIO_setup 16 HIGH w3 of Inl e \<Rightarrow> (Raise e, w3) | Inr w4 \<Rightarrow>
            (Return, w4)))))"

definition initialize_lcd :: "world \<Rightarrow> world" where
  "initialize_lcd w =
     (let w1 = mcp_output 3 True w;
          w2 = lcd_begin 16 2 w1;
          w3 = lcd_message (''Rasp-Pi Telegram'' @ nl) w2
      in lcd_message ''Bot in action...'' w3)"

text \<open>\<^verbatim>\<open>destroy\<close>: the two \<^verbatim>\<open>print\<close> calls write to the console only.\<close>

definition destroy :: "world \<Rightarrow> world" where
  "destroy w =
     (let w1 = GPIO_cleanup w;
          w2 = lcd_clear w1;
          w3 = lcd_message (''Shutdown...'' @ nl) w2;
          w4 = lcd_message (''I'' @ apostrophe @ ''m not active'') w3
      in lcd_set_backlight False w4)"

text \<open>
  What reaches the \<^verbatim>\<open>try\<close> block of \<^verbatim>\<open>main_loop\<close>, one event at a time: an update,
  which the client hands to the handler registered for it; an exception that comes out
  of the \<^verbatim>\<open>bot.polling\<close> call; or a \<^verbatim>\<open>KeyboardInterrupt\<close> that comes out of the block.
\<close>

datatype update =
    Start message
  | Help message
  | Set_relay_status message
  | Get_relay_status message
  | Get_schema_design message
  | Callback callback_query

datatype event = Update update | Polling_raises | Keyboard_interrupt

fun handle :: "update \<Rightarrow> world \<Rightarrow> outcome \<times> world" where
  "handle (Start m) w = start_command m w"
| "handle (Help m) w = help_command m w"
| "handle (Set_relay_status m) w = set_relay_status_command m w"
| "handle (Get_relay_status m) w = get_relay_status_command m w"
| "handle (Get_schema_design m) w = get_schema_design_command m w"
| "handle (Callback q) w = inline_query_callback q w"

text \<open>
  The \<^verbatim>\<open>while 1\<close> of \<^verbatim>\<open>main_loop\<close>, run on the events that arrive. \<^verbatim>\<open>except Exception\<close>
  calls \<open>destroy\<close> and goes round again; \<^verbatim>\<open>KeyboardInterrupt\<close> is not an \<^verbatim>\<open>Exception\<close>
  and leaves the loop. Whether an exception raised by a handler comes out of
  \<^verbatim>\<open>bot.polling\<close> is the client library's choice, so it is the parameter \<open>reraise\<close>; a
  client that raises the same exception again on later calls of \<^verbatim>\<open>bot.polling\<close> gives a
  run with further \<open>Polling_raises\<close> events. When \<^verbatim>\<open>bot.polling\<close> returns, the loop
  waits in \<^verbatim>\<open>time.sleep\<close> and the client delivers nothing more: the events of that run
  end there. The result \<open>Listening\<close> says that the events are used up and the loop has
  not been left.
\<close>

datatype loop_state = Listening | Interrupted | Failed py_error

fun listening :: "bool \<Rightarrow> event list \<Rightarrow> world \<Rightarrow> loop_state \<times> world" where
  "listening reraise [] w = (Listening, w)"
| "listening reraise (Update u # es) w =
     (case handle u w of
        (Return, w1) \<Rightarrow> listening reraise es w1
      | (Raise e, w1) \<Rightarrow>
          if reraise then listening reraise es (destroy w1) else listening reraise es w1)"
| "listening reraise (Polling_raises # es) w = listening reraise es (destroy w)"
| "listening reraise (Keyboard_interrupt # es) w = (Interrupted, w)"

definition main_loop :: "bool \<Rightarrow> event list \<Rightarrow> world \<Rightarrow> loop_state \<times> world" where
  "main_loop reraise es w =
     (case initialize_relay w of
        (Raise e, w1) \<Rightarrow> (Failed e, w1)
      | (Return, w1) \<Rightarrow> listening reraise es (initialize_lcd w1))"

text \<open>The world when the script starts: nothing set up, the display blank.\<close>

definition boot :: world where
  "boot = \<lparr>gpio_mode = False, channels = Map.empty, lcd_text = [], lcd_backlight = False,
           mcp_pins = Map.empty, trace = []\<rparr>"

subsection \<open>Notions used in the properties\<close>

text \<open>
  The polarity in the spec's words: the line is active-low, so LOW is reported "on" and
  HIGH is reported "off".
\<close>

fun polarity :: "bool \<Rightarrow> string" where
  "polarity False = em_status_on"
| "polarity True = em_status_off"

text \<open>The texts sent to the caller, in the order of sending.\<close>

fun sent :: "effect \<Rightarrow> string list" where
  "sent (Reply_to chat mid t) = [t]"
| "sent (Send_message chat t markup) = [t]"
| "sent _ = []"

definition outbox :: "effect list \<Rightarrow> string list" where
  "outbox tr = concat (map sent tr)"

text \<open>The calls that belong to initialization: pin set-up and display set-up.\<close>

fun is_setup :: "effect \<Rightarrow> bool" where
  "is_setup Gpio_setmode = True"
| "is_setup (Gpio_setup pin lv) = True"
| "is_setup (Mcp_output pin lv) = True"
| "is_setup (Lcd_begin cols lines) = True"
| "is_setup _ = False"

fun is_pin_write :: "effect \<Rightarrow> bool" where
  "is_pin_write (Gpio_output pin lv) = True"
| "is_pin_write (Gpio_setup pin lv) = True"
| "is_pin_write _ = False"

text \<open>
  What the status loop does, as a function of the pin levels alone: its outcome and the
  calls it makes.
\<close>

fun status_run :: "(int \<times> int) list \<Rightarrow> int \<Rightarrow> (int \<rightharpoonup> bool) \<Rightarrow> outcome \<times> effect list" where
  "status_run [] chat ch = (Return, [])"
| "status_run ((relay_id, bcm_value) # rest) chat ch =
     (case ch bcm_value of
        None \<Rightarrow> (Raise RuntimeError, [])
      | Some lv \<Rightarrow>
          (case status_run rest chat ch of
             (out, tr) \<Rightarrow>
               (out, Gpio_input bcm_value # Send_message chat (status_text relay_id lv) None # tr)))"

text \<open>Inputs for the scenarios: a caller, a button press, and the world at the first poll.\<close>

definition caller :: message where
  "caller = \<lparr>message_id = 1, chat_id = 7, first_name = ''Ada'', last_name = Some ''Byron''\<rparr>"

definition press :: "string \<Rightarrow> callback_query" where
  "press d = \<lparr>query_id = ''q1'', query_data = d, query_message = caller\<rparr>"

definition ready :: world where
  "ready = initialize_lcd (snd (initialize_relay boot))"

text \<open>
  The world after one update has been handled inside the loop: the handler's world, or
  that world after \<open>destroy\<close> when the handler raised and the client re-raises.
\<close>

definition after_update :: "bool \<Rightarrow> update \<Rightarrow> world \<Rightarrow> world" where
  "after_update r u w =
     (if fst (handle u w) = Return \<or> \<not> r then snd (handle u w) else destroy (snd (handle u w)))"

section \<open>Facts about the primitives, the handlers and the loop\<close>

lemmas prim_defs = emit_def GPIO_setmode_def GPIO_setup_def GPIO_input_def GPIO_output_def
  GPIO_cleanup_def lcd_clear_def lcd_message_def lcd_begin_def lcd_set_backlight_def
  mcp_output_def bot_reply_to_def bot_send_message_def bot_answer_callback_query_def

lemma toggle_shape:
  assumes "startswith (query_data q) ''relay-''" "py_int (drop 6 (query_data q)) = Inr n"
    "map_of dict_relay_bcm n = Some pin" "channels w pin = Some lv"
  shows "inline_query_callback q w =
     (Return,
      w\<lparr>channels := (channels w)(pin \<mapsto> \<not> lv),
        lcd_text := (if lv then ''Act. Relay '' else ''De Act. Relay '') @ show_int n @ nl
                      @ ''In listening...'',
        trace := trace w @
          (if lv
           then [Gpio_input pin, Gpio_output pin LOW, Lcd_clear,
                 Lcd_message (''Act. Relay '' @ show_int n @ nl), Lcd_message ''In listening...'']
           else [Gpio_input pin, Lcd_clear, Lcd_message (''De Act. Relay '' @ show_int n @ nl),
                 Lcd_message ''In listening...'', Gpio_output pin HIGH])
          @ [Answer_callback_query (query_id q),
             Send_message (chat_id (query_message q))
               (polarity (\<not> lv) @ '' Changed status of the RelayId '' @ show_int n @ '' ''
                  @ em_status_changed) None]\<rparr>)"
  using assms
  by (cases lv) (simp_all add: inline_query_callback_def set_relay_status_callback_def prim_defs Let_def send_set_relay_status_result_def)

lemma status_loop_run:
  "status_loop xs chat w =
     (fst (status_run xs chat (channels w)),
      w\<lparr>trace := trace w @ snd (status_run xs chat (channels w))\<rparr>)"
proof (induction xs arbitrary: w)
  case Nil
  show ?case by simp
next
  case (Cons x xs)
  obtain r p where x: "x = (r, p)" by (cases x)
  show ?case
  proof (cases "channels w p")
    case None
    then show ?thesis by (simp add: x GPIO_input_def)
  next
    case (Some lv)
    then show ?thesis
      by (simp add: x GPIO_input_def Cons.IH emit_def bot_send_message_def split: prod.splits)
  qed
qed

lemma status_run_no_write: "e \<in> set (snd (status_run xs chat ch)) \<Longrightarrow> \<not> is_pin_write e \<and> \<not> is_setup e"
  by (induction xs arbitrary: e) (auto split: option.splits prod.splits)

lemma get_relay_status_shape:
  "get_relay_status_command m w =
     (case status_run dict_relay_bcm (chat_id m) (channels w) of
        (Raise e, tr) \<Rightarrow> (Raise e, w\<lparr>trace := trace w @ tr\<rparr>)
      | (Return, tr) \<Rightarrow>
          (Return, w\<lparr>lcd_text := ''Request Command'' @ nl @ ''/get_relay_status'',
                      trace := trace w @ tr @ [Lcd_clear, Lcd_message (''Request Command'' @ nl),
                                             Lcd_message ''/get_relay_status'']\<rparr>))"
  by (simp add: get_relay_status_command_def status_loop_run Let_def lcd_clear_def lcd_message_def emit_def split: prod.splits outcome.splits)


lemma show_int_1: "show_int 1 = ''1''" by code_simp
lemma show_int_2: "show_int 2 = ''2''" by code_simp
lemma show_int_3: "show_int 3 = ''3''" by code_simp
lemma show_int_4: "show_int 4 = ''4''" by code_simp

lemma polarity_if: "(if lv then em_status_off else em_status_on) = polarity lv"
  by (cases lv) simp_all

lemma status_text_polarity:
  "status_text r lv = ''Status of the RelayId '' @ show_int r @ '' '' @ polarity lv"
  by (simp add: status_text_def polarity_if)

lemma outbox_append: "outbox (xs @ ys) = outbox xs @ outbox ys"
  by (simp add: outbox_def)

lemma status_run_returns:
  "\<forall>p \<in> snd ` set xs. ch p \<noteq> None \<Longrightarrow> fst (status_run xs chat ch) = Return"
  by (induction xs) (auto split: option.splits prod.splits)

lemma status_run_line:
  "(r, p) \<in> set xs \<Longrightarrow> fst (status_run xs chat ch) = Return \<Longrightarrow> ch p = Some lv \<Longrightarrow>
   Send_message chat (status_text r lv) None \<in> set (snd (status_run xs chat ch))"
  by (induction xs) (auto split: option.splits prod.splits)

lemma initialize_relay_shape:
  "initialize_relay w =
     (Return,
      w\<lparr>gpio_mode := True,
        channels := (channels w)(23 \<mapsto> HIGH, 24 \<mapsto> HIGH, 25 \<mapsto> HIGH, 16 \<mapsto> HIGH),
        trace := trace w @ [Gpio_setmode, Gpio_setup 23 HIGH, Gpio_setup 24 HIGH,
                            Gpio_setup 25 HIGH, Gpio_setup 16 HIGH]\<rparr>)"
  by (simp add: initialize_relay_def prim_defs Let_def)

lemma initialize_lcd_shape:
  "initialize_lcd w =
     w\<lparr>lcd_text := lcd_text w @ ''Rasp-Pi Telegram'' @ nl @ ''Bot in action...'',
       mcp_pins := (mcp_pins w)(3 \<mapsto> True),
       trace := trace w @ [Mcp_output 3 True, Lcd_begin 16 2,
                           Lcd_message (''Rasp-Pi Telegram'' @ nl),
                           Lcd_message ''Bot in action...'']\<rparr>"
  by (simp add: initialize_lcd_def prim_defs Let_def)

lemma destroy_shape:
  "destroy w =
     w\<lparr>gpio_mode := False, channels := Map.empty,
       lcd_text := ''Shutdown...'' @ nl @ ''I'' @ apostrophe @ ''m not active'',
       lcd_backlight := False,
       trace := trace w @ [Gpio_cleanup, Lcd_clear, Lcd_message (''Shutdown...'' @ nl),
                           Lcd_message (''I'' @ apostrophe @ ''m not active''),
                           Lcd_backlight False]\<rparr>"
  by (simp add: destroy_def prim_defs Let_def)







lemma listening_update:
  "listening r (Update u # es) w = listening r es (after_update r u w)"
  by (cases r; cases "handle u w"; cases "fst (handle u w)") (simp_all add: after_update_def)



lemma listening_append:
  "listening r (es @ es') w =
     (case listening r es w of
        (Listening, w1) \<Rightarrow> listening r es' w1
      | other \<Rightarrow> other)"
proof (induction es arbitrary: w)
  case Nil
  show ?case by simp
next
  case (Cons e es)
  show ?case
  proof (cases e)
    case (Update u)
    then show ?thesis using Cons.IH [of "after_update r u w"]
      by (simp only: listening_update append_Cons)
  next
    case Polling_raises
    then show ?thesis using Cons.IH by simp
  next
    case Keyboard_interrupt
    then show ?thesis by simp
  qed
qed

lemma listening_keeps_listening:
  "Keyboard_interrupt \<notin> set es \<Longrightarrow> fst (listening r es w) = Listening"
proof (induction es arbitrary: w)
  case Nil
  show ?case by simp
next
  case (Cons e es)
  then have ih: "\<And>v. fst (listening r es v) = Listening" by simp
  show ?case
  proof (cases e)
    case (Update u)
    then show ?thesis using ih [of "after_update r u w"] by (simp only: listening_update)
  next
    case Polling_raises
    then show ?thesis using ih by simp
  next
    case Keyboard_interrupt
    then show ?thesis using Cons.prems by simp
  qed
qed



lemma press_prefix: "startswith (query_data (press (''relay-'' @ s))) ''relay-''"
  by (simp add: press_def startswith_def)

lemma press_rest: "drop 6 (query_data (press (''relay-'' @ s))) = s"
  by (simp add: press_def)

lemma press_chat: "chat_id (query_message (press d)) = 7"
  by (simp add: press_def caller_def)

lemma press_id: "query_id (press d) = ''q1''"
  by (simp add: press_def)

lemma py_int_2: "py_int ''2'' = Inr 2" by code_simp
lemma py_int_3: "py_int ''3'' = Inr 3" by code_simp
lemma py_int_5: "py_int ''5'' = Inr 5" by code_simp

lemma ready_world:
  "ready = \<lparr>gpio_mode = True,
            channels = [23 \<mapsto> HIGH, 24 \<mapsto> HIGH, 25 \<mapsto> HIGH, 16 \<mapsto> HIGH],
            lcd_text = ''Rasp-Pi Telegram'' @ nl @ ''Bot in action...'',
            lcd_backlight = False,
            mcp_pins = [3 \<mapsto> True],
            trace = [Gpio_setmode, Gpio_setup 23 HIGH, Gpio_setup 24 HIGH, Gpio_setup 25 HIGH,
                     Gpio_setup 16 HIGH, Mcp_output 3 True, Lcd_begin 16 2,
                     Lcd_message (''Rasp-Pi Telegram'' @ nl), Lcd_message ''Bot in action...'']\<rparr>"
  by (simp add: ready_def boot_def initialize_relay_shape initialize_lcd_shape)

lemma main_loop_ready: "main_loop r es boot = listening r es ready"
  by (simp add: main_loop_def ready_def initialize_relay_shape)

lemma emoji_distinct: "em_status_on \<noteq> em_status_off"
  by (simp add: em_status_on_def em_status_off_def)

lemma get_relay_status_same_pins:
  assumes "channels w' = channels w"
  shows "fst (get_relay_status_command m w') = fst (get_relay_status_command m w) \<and>
         drop (length (trace w')) (trace (snd (get_relay_status_command m w'))) =
           drop (length (trace w)) (trace (snd (get_relay_status_command m w)))"
proof -
  obtain out tr where r: "status_run dict_relay_bcm (chat_id m) (channels w) = (out, tr)"
    by (cases "status_run dict_relay_bcm (chat_id m) (channels w)")
  show ?thesis
    by (cases out) (simp_all add: get_relay_status_shape assms r)
qed

lemma get_relay_status_pins:
  "channels (snd (get_relay_status_command m w)) = channels w \<and>
   filter is_pin_write (drop (length (trace w)) (trace (snd (get_relay_status_command m w)))) = []"
proof -
  obtain out tr where r: "status_run dict_relay_bcm (chat_id m) (channels w) = (out, tr)"
    by (cases "status_run dict_relay_bcm (chat_id m) (channels w)")
  have "\<forall>e \<in> set tr. \<not> is_pin_write e"
    using status_run_no_write [of _ dict_relay_bcm "chat_id m" "channels w"] r by simp
  then have nw: "filter is_pin_write tr = []" by (simp add: filter_empty_conv)
  show ?thesis
    using nw by (cases out) (simp_all add: get_relay_status_shape r)
qed

lemma main_loop_listening:
  "main_loop r es w = listening r es (initialize_lcd (snd (initialize_relay w)))"
  by (simp add: main_loop_def initialize_relay_shape)

section \<open>The claims\<close>

subsection \<open>C1: a button press for an unknown relay\<close>

text \<open>
  C1, as the claim states it, fails. Pressing a button whose data is \<^verbatim>\<open>relay-5\<close> raises
  \<^verbatim>\<open>KeyError\<close> out of the handler, and at that point the world, trace included, is as
  before, so no reply of any kind has been sent. The pins and the display do not stay as
  they were either, when the client lets the exception out of \<^verbatim>\<open>bot.polling\<close>: relay 2
  has been energized (pin 24 driven LOW), and after the press for relay 5 the loop has
  run \<open>destroy\<close>, pin 24 is released, the display shows the shutdown text, and the calls
  made for that press are those of \<open>destroy\<close> alone.
\<close>

theorem unknown_relay_counterexample:
  "inline_query_callback (press ''relay-5'') ready = (Raise KeyError, ready) \<and>
   channels (snd (main_loop True [Update (Callback (press ''relay-2''))] boot)) 24 = Some LOW \<and>
   channels (snd (main_loop True
       [Update (Callback (press ''relay-2'')), Update (Callback (press ''relay-5''))] boot)) 24 =
     None \<and>
   lcd_text (snd (main_loop True
       [Update (Callback (press ''relay-2'')), Update (Callback (press ''relay-5''))] boot)) =
     ''Shutdown...'' @ nl @ ''I'' @ apostrophe @ ''m not active'' \<and>
   trace (snd (main_loop True
       [Update (Callback (press ''relay-2'')), Update (Callback (press ''relay-5''))] boot)) =
     trace (snd (main_loop True [Update (Callback (press ''relay-2''))] boot)) @
     [Gpio_cleanup, Lcd_clear, Lcd_message (''Shutdown...'' @ nl),
      Lcd_message (''I'' @ apostrophe @ ''m not active''), Lcd_backlight False]"
proof -
  have k: "\<And>w. inline_query_callback (press ''relay-5'') w = (Raise KeyError, w)"
    using press_prefix [of "''5''"] press_rest [of "''5''"]
    by (simp add: inline_query_callback_def set_relay_status_callback_def py_int_5
        dict_relay_bcm_def)
  have a: "startswith (query_data (press ''relay-2'')) ''relay-''"
    using press_prefix [of "''2''"] by simp
  have b: "py_int (drop 6 (query_data (press ''relay-2''))) = Inr 2"
    using press_rest [of "''2''"] by (simp add: py_int_2)
  have c: "map_of dict_relay_bcm 2 = Some 24" by (simp add: dict_relay_bcm_def)
  have d: "channels ready 24 = Some HIGH" by (simp add: ready_world)
  define W where "W = snd (inline_query_callback (press ''relay-2'') ready)"
  have h: "inline_query_callback (press ''relay-2'') ready = (Return, W)"
    unfolding W_def by (simp add: toggle_shape [OF a b c d])
  have chW: "channels W 24 = Some LOW"
    unfolding W_def by (simp add: toggle_shape [OF a b c d])
  have m1: "main_loop True [Update (Callback (press ''relay-2''))] boot = (Listening, W)"
    by (simp add: main_loop_ready h)
  have m2: "main_loop True
      [Update (Callback (press ''relay-2'')), Update (Callback (press ''relay-5''))] boot =
      (Listening, destroy W)"
    by (simp add: main_loop_ready h k)
  show ?thesis
    by (simp add: m1 m2 chW k) (simp add: destroy_shape)
qed

text \<open>
  C1, amended: for every callback whose data starts with \<^verbatim>\<open>relay-\<close> and continues with
  an integer outside 1, 2, 3, 4, the handler raises \<^verbatim>\<open>KeyError\<close>, which escapes it.
  Up to that point the world is untouched: no pin is read or written, the display keeps
  its content, and neither an acknowledgment nor a reply is sent. What follows in the run
  loop depends on the client. When it lets the exception out of \<^verbatim>\<open>bot.polling\<close>, the
  loop runs \<open>destroy\<close> on the world it had and polls again: every pin is released and the
  display shows the shutdown text. When the client drops the exception, the loop goes on
  with the world it had: every pin's state and the display content are unchanged.
\<close>

theorem unknown_relay_raises_key_error:
  assumes "startswith (query_data q) ''relay-''"
    and "py_int (drop 6 (query_data q)) = Inr n"
    and "n \<notin> {1, 2, 3, 4}"
    and "Keyboard_interrupt \<notin> set es"
  shows "inline_query_callback q w = (Raise KeyError, w) \<and>
         main_loop True (es @ [Update (Callback q)]) v =
           (Listening, destroy (snd (main_loop True es v))) \<and>
         channels (snd (main_loop True (es @ [Update (Callback q)]) v)) = Map.empty \<and>
         lcd_text (snd (main_loop True (es @ [Update (Callback q)]) v)) =
           ''Shutdown...'' @ nl @ ''I'' @ apostrophe @ ''m not active'' \<and>
         main_loop False (es @ [Update (Callback q)]) v =
           (Listening, snd (main_loop False es v))"
proof -
  have k: "\<And>u. inline_query_callback q u = (Raise KeyError, u)"
    using assms(1-3)
    by (simp add: inline_query_callback_def set_relay_status_callback_def dict_relay_bcm_def)
  let ?w0 = "initialize_lcd (snd (initialize_relay v))"
  have t: "main_loop True (es @ [Update (Callback q)]) v =
      (Listening, destroy (snd (main_loop True es v)))"
    using listening_keeps_listening [OF assms(4), of True ?w0]
    by (cases "listening True es ?w0") (simp add: main_loop_listening listening_append k)
  have f: "main_loop False (es @ [Update (Callback q)]) v =
      (Listening, snd (main_loop False es v))"
    using listening_keeps_listening [OF assms(4), of False ?w0]
    by (cases "listening False es ?w0") (simp add: main_loop_listening listening_append k)
  show ?thesis
    by (simp add: k t f) (simp add: destroy_shape)
qed

text \<open>
  C1, amended, at the data \<^verbatim>\<open>relay-5\<close>, pressed after relay 2 has been energized.
\<close>

theorem unknown_relay_raises_key_error_witness:
  "startswith (query_data (press ''relay-5'')) ''relay-'' \<and>
   py_int (drop 6 (query_data (press ''relay-5''))) = Inr 5 \<and>
   (5::int) \<notin> {1, 2, 3, 4} \<and>
   Keyboard_interrupt \<notin> set [Update (Callback (press ''relay-2''))] \<and>
   inline_query_callback (press ''relay-5'') ready = (Raise KeyError, ready) \<and>
   channels (snd (main_loop True
       ([Update (Callback (press ''relay-2''))] @ [Update (Callback (press ''relay-5''))])
       boot)) = Map.empty \<and>
   main_loop False
       ([Update (Callback (press ''relay-2''))] @ [Update (Callback (press ''relay-5''))]) boot =
     (Listening, snd (main_loop False [Update (Callback (press ''relay-2''))] boot))"
proof -
  have a: "startswith (query_data (press ''relay-5'')) ''relay-''"
    using press_prefix [of "''5''"] by simp
  have b: "py_int (drop 6 (query_data (press ''relay-5''))) = Inr 5"
    using press_rest [of "''5''"] by (simp add: py_int_5)
  have c: "(5::int) \<notin> {1, 2, 3, 4}" by simp
  have d: "Keyboard_interrupt \<notin> set [Update (Callback (press ''relay-2''))]" by simp
  show ?thesis
    using a b c d unknown_relay_raises_key_error [OF a b c d, of ready boot] by blast
qed

subsection \<open>C2: toggling twice\<close>

text \<open>
  C2: for a relay of the table whose pin is set up at level \<open>lv\<close>, two presses of its
  button both return, the first leaves the pin at the opposite level, the second leaves
  every pin as it was at the start, and the reply of the second press carries the state
  that the relay had at the start (LOW is "on", HIGH is "off").
\<close>

theorem toggle_twice_restores:
  assumes "startswith (query_data q) ''relay-''"
    and "py_int (drop 6 (query_data q)) = Inr n"
    and "map_of dict_relay_bcm n = Some pin"
    and "channels w pin = Some lv"
  shows "fst (inline_query_callback q w) = Return \<and>
         channels (snd (inline_query_callback q w)) pin = Some (\<not> lv) \<and>
         fst (inline_query_callback q (snd (inline_query_callback q w))) = Return \<and>
         channels (snd (inline_query_callback q (snd (inline_query_callback q w)))) = channels w \<and>
         last (trace (snd (inline_query_callback q (snd (inline_query_callback q w))))) =
           Send_message (chat_id (query_message q))
             (polarity lv @ '' Changed status of the RelayId '' @ show_int n @ '' ''
                @ em_status_changed) None"
proof -
  let ?w1 = "snd (inline_query_callback q w)"
  have s1: "fst (inline_query_callback q w) = Return"
    by (simp add: toggle_shape [OF assms])
  have c1: "channels ?w1 = (channels w)(pin \<mapsto> \<not> lv)"
    by (simp add: toggle_shape [OF assms])
  have lv1: "channels ?w1 pin = Some (\<not> lv)" by (simp add: c1)
  note two = toggle_shape [OF assms(1) assms(2) assms(3) lv1]
  have restored: "(channels w)(pin \<mapsto> lv) = channels w"
    using assms(4) by (simp add: map_upd_triv)
  have s2: "fst (inline_query_callback q ?w1) = Return"
    by (simp add: two)
  have c2: "channels (snd (inline_query_callback q ?w1)) = channels w"
    by (simp add: two c1 restored)
  have l2: "last (trace (snd (inline_query_callback q ?w1))) =
      Send_message (chat_id (query_message q))
        (polarity lv @ '' Changed status of the RelayId '' @ show_int n @ '' ''
           @ em_status_changed) None"
    by (simp add: two)
  show ?thesis using s1 lv1 s2 c2 l2 by blast
qed

text \<open>
  C2 at relay 2, in the world of the first poll.
\<close>

theorem toggle_twice_restores_witness:
  "startswith (query_data (press ''relay-2'')) ''relay-'' \<and>
   py_int (drop 6 (query_data (press ''relay-2''))) = Inr 2 \<and>
   map_of dict_relay_bcm 2 = Some 24 \<and>
   channels ready 24 = Some HIGH \<and>
   channels (snd (inline_query_callback (press ''relay-2'') ready)) 24 = Some LOW \<and>
   channels (snd (inline_query_callback (press ''relay-2'')
     (snd (inline_query_callback (press ''relay-2'') ready)))) = channels ready \<and>
   last (trace (snd (inline_query_callback (press ''relay-2'')
     (snd (inline_query_callback (press ''relay-2'') ready))))) =
     Send_message 7 ('':black_circle: Changed status of the RelayId 2 :thumbsup:'') None"
proof -
  have a: "startswith (query_data (press ''relay-2'')) ''relay-''"
    using press_prefix [of "''2''"] by simp
  have b: "py_int (drop 6 (query_data (press ''relay-2''))) = Inr 2"
    using press_rest [of "''2''"] by (simp add: py_int_2)
  have c: "map_of dict_relay_bcm 2 = Some 24" by (simp add: dict_relay_bcm_def)
  have d: "channels ready 24 = Some HIGH" by (simp add: ready_world)
  show ?thesis
    using a b c d toggle_twice_restores [OF a b c d]
    by (simp add: press_chat show_int_2 em_status_off_def em_status_changed_def)
qed

subsection \<open>C3: one polarity in the toggle path and in the query path\<close>

text \<open>
  C3: for a relay of the table whose pin is at level \<open>lv\<close>, with all four pins set up.
  Toggle path: the press leaves the pin at the opposite level and its reply carries the
  polarity of that new level. Query path: the status line of the relay carries the
  polarity of the level the pin has. The polarity is the same function in both: LOW is
  the "on" emoji, HIGH the "off" emoji, and the two differ.
\<close>

theorem polarity_same_in_both_paths:
  assumes "startswith (query_data q) ''relay-''"
    and "py_int (drop 6 (query_data q)) = Inr n"
    and "map_of dict_relay_bcm n = Some pin"
    and "channels w pin = Some lv"
    and "\<forall>p \<in> snd ` set dict_relay_bcm. channels w p \<noteq> None"
  shows "channels (snd (inline_query_callback q w)) pin = Some (\<not> lv) \<and>
         last (trace (snd (inline_query_callback q w))) =
           Send_message (chat_id (query_message q))
             (polarity (\<not> lv) @ '' Changed status of the RelayId '' @ show_int n @ '' ''
                @ em_status_changed) None \<and>
         fst (get_relay_status_command m w) = Return \<and>
         Send_message (chat_id m)
             (''Status of the RelayId '' @ show_int n @ '' '' @ polarity lv) None
           \<in> set (drop (length (trace w)) (trace (snd (get_relay_status_command m w)))) \<and>
         polarity LOW = em_status_on \<and> polarity HIGH = em_status_off \<and>
         em_status_on \<noteq> em_status_off"
proof -
  have t1: "channels (snd (inline_query_callback q w)) pin = Some (\<not> lv)"
    by (simp add: toggle_shape [OF assms(1-4)])
  have t2: "last (trace (snd (inline_query_callback q w))) =
           Send_message (chat_id (query_message q))
             (polarity (\<not> lv) @ '' Changed status of the RelayId '' @ show_int n @ '' ''
                @ em_status_changed) None"
    by (simp add: toggle_shape [OF assms(1-4)])
  obtain out tr where r: "status_run dict_relay_bcm (chat_id m) (channels w) = (out, tr)"
    by (cases "status_run dict_relay_bcm (chat_id m) (channels w)")
  have out: "out = Return"
    using status_run_returns [OF assms(5), of "chat_id m"] r by simp
  have mem: "(n, pin) \<in> set dict_relay_bcm"
    using assms(3) by (rule map_of_SomeD)
  have line: "Send_message (chat_id m) (status_text n lv) None \<in> set tr"
    using status_run_line [of n pin dict_relay_bcm "chat_id m" "channels w" lv] mem assms(4) r out
    by simp
  have q1: "fst (get_relay_status_command m w) = Return"
    by (simp add: get_relay_status_shape r out)
  have q2: "Send_message (chat_id m)
             (''Status of the RelayId '' @ show_int n @ '' '' @ polarity lv) None
           \<in> set (drop (length (trace w)) (trace (snd (get_relay_status_command m w))))"
    using line by (simp add: get_relay_status_shape r out status_text_polarity)
  show ?thesis using t1 t2 q1 q2 emoji_distinct by simp
qed

text \<open>
  C3 at relay 2, in the world of the first poll, where every pin is HIGH.
\<close>

theorem polarity_same_in_both_paths_witness:
  "startswith (query_data (press ''relay-2'')) ''relay-'' \<and>
   py_int (drop 6 (query_data (press ''relay-2''))) = Inr 2 \<and>
   map_of dict_relay_bcm 2 = Some 24 \<and>
   channels ready 24 = Some HIGH \<and>
   map (\<lambda>(relay_id, pin). channels ready pin) dict_relay_bcm =
     [Some HIGH, Some HIGH, Some HIGH, Some HIGH] \<and>
   channels (snd (inline_query_callback (press ''relay-2'') ready)) 24 = Some LOW \<and>
   last (trace (snd (inline_query_callback (press ''relay-2'') ready))) =
     Send_message 7 '':red_circle: Changed status of the RelayId 2 :thumbsup:'' None \<and>
   Send_message 7 ''Status of the RelayId 2 :black_circle:'' None
     \<in> set (drop (length (trace ready)) (trace (snd (get_relay_status_command caller ready))))"
proof -
  have a: "startswith (query_data (press ''relay-2'')) ''relay-''"
    using press_prefix [of "''2''"] by simp
  have b: "py_int (drop 6 (query_data (press ''relay-2''))) = Inr 2"
    using press_rest [of "''2''"] by (simp add: py_int_2)
  have c: "map_of dict_relay_bcm 2 = Some 24" by (simp add: dict_relay_bcm_def)
  have d: "channels ready 24 = Some HIGH" by (simp add: ready_world)
  have e: "\<forall>p \<in> snd ` set dict_relay_bcm. channels ready p \<noteq> None"
    by (auto simp add: ready_world dict_relay_bcm_def)
  have f: "chat_id caller = 7" by (simp add: caller_def)
  have g: "map (\<lambda>(relay_id, pin). channels ready pin) dict_relay_bcm =
      [Some HIGH, Some HIGH, Some HIGH, Some HIGH]"
    by (simp add: ready_world dict_relay_bcm_def)
  show ?thesis
    using a b c d g polarity_same_in_both_paths [OF a b c d e, of caller]
    by (simp add: press_chat f show_int_2 em_status_on_def em_status_off_def
        em_status_changed_def)
qed

subsection \<open>C4: recovery from a fault of the subscription\<close>

text \<open>
  C4, as the claim states it, fails: relay 3 is energized (pin 25 driven LOW), then the
  subscription raises. After the recovery the loop is listening again, but pin 25 has not
  been set to the safe default level HIGH: \<^verbatim>\<open>GPIO.cleanup()\<close> has released it, it is no
  longer set up, and a status query raises \<^verbatim>\<open>RuntimeError\<close> where the claim expects the
  report "off".
\<close>

theorem recovery_releases_pin_counterexample:
  "channels (snd (main_loop True [Update (Callback (press ''relay-3''))] boot)) 25 = Some LOW \<and>
   fst (main_loop True [Update (Callback (press ''relay-3'')), Polling_raises] boot) = Listening \<and>
   channels (snd (main_loop True [Update (Callback (press ''relay-3'')), Polling_raises] boot)) 25
     = None \<and>
   fst (get_relay_status_command caller
         (snd (main_loop True [Update (Callback (press ''relay-3'')), Polling_raises] boot))) =
     Raise RuntimeError"
proof -
  have a: "startswith (query_data (press ''relay-3'')) ''relay-''"
    using press_prefix [of "''3''"] by simp
  have b: "py_int (drop 6 (query_data (press ''relay-3''))) = Inr 3"
    using press_rest [of "''3''"] by (simp add: py_int_3)
  have c: "map_of dict_relay_bcm 3 = Some 25" by (simp add: dict_relay_bcm_def)
  have d: "channels ready 25 = Some HIGH" by (simp add: ready_world)
  define W where "W = snd (inline_query_callback (press ''relay-3'') ready)"
  have h: "inline_query_callback (press ''relay-3'') ready = (Return, W)"
    unfolding W_def by (simp add: toggle_shape [OF a b c d])
  have chW: "channels W 25 = Some LOW"
    unfolding W_def by (simp add: toggle_shape [OF a b c d])
  have m1: "main_loop True [Update (Callback (press ''relay-3''))] boot = (Listening, W)"
    by (simp add: main_loop_ready h)
  have m2: "main_loop True [Update (Callback (press ''relay-3'')), Polling_raises] boot =
      (Listening, destroy W)"
    by (simp add: main_loop_ready h)
  have g: "fst (get_relay_status_command caller (destroy W)) = Raise RuntimeError"
    by (simp add: get_relay_status_shape destroy_shape dict_relay_bcm_def)
  show ?thesis
    by (simp add: m1 m2 chW g) (simp add: destroy_shape)
qed

text \<open>
  C4, amended: whenever the subscription raises while the loop is listening, the loop
  runs the shutdown sequence and polls again, and no number of such faults ends it. The
  shutdown sequence is \<^verbatim>\<open>GPIO.cleanup()\<close>, clearing the display, showing the "Shutdown"
  text and turning the backlight attribute off. It writes no level: every pin is
  released, so a relay that was energized is no longer driven LOW, no channel is set up,
  and reading any pin raises \<^verbatim>\<open>RuntimeError\<close>.
\<close>

theorem fault_recovery_releases_pins:
  assumes "Keyboard_interrupt \<notin> set es" and "Keyboard_interrupt \<notin> set es'"
  shows "fst (main_loop reraise (es @ Polling_raises # es') w) = Listening \<and>
         main_loop reraise (es @ [Polling_raises]) w =
           (Listening, destroy (snd (main_loop reraise es w))) \<and>
         trace (snd (main_loop reraise (es @ [Polling_raises]) w)) =
           trace (snd (main_loop reraise es w)) @
           [Gpio_cleanup, Lcd_clear, Lcd_message (''Shutdown...'' @ nl),
            Lcd_message (''I'' @ apostrophe @ ''m not active''), Lcd_backlight False] \<and>
         lcd_text (snd (main_loop reraise (es @ [Polling_raises]) w)) =
           ''Shutdown...'' @ nl @ ''I'' @ apostrophe @ ''m not active'' \<and>
         channels (snd (main_loop reraise (es @ [Polling_raises]) w)) = Map.empty \<and>
         \<not> gpio_mode (snd (main_loop reraise (es @ [Polling_raises]) w)) \<and>
         GPIO_input pin (snd (main_loop reraise (es @ [Polling_raises]) w)) = Inl RuntimeError"
proof -
  let ?w0 = "initialize_lcd (snd (initialize_relay w))"
  have no: "Keyboard_interrupt \<notin> set (es @ Polling_raises # es')"
    using assms by simp
  have p1: "fst (main_loop reraise (es @ Polling_raises # es') w) = Listening"
    using listening_keeps_listening [OF no] by (simp add: main_loop_listening)
  have l: "fst (listening reraise es ?w0) = Listening"
    using listening_keeps_listening [OF assms(1)] by simp
  have p2: "main_loop reraise (es @ [Polling_raises]) w =
      (Listening, destroy (snd (main_loop reraise es w)))"
    using l
    by (cases "listening reraise es ?w0") (simp add: main_loop_listening listening_append)
  show ?thesis
    using p1 p2 by (simp add: destroy_shape GPIO_input_def)
qed

text \<open>
  C4, amended, at a press of relay 3 followed by two faults with a status query between them.
\<close>

theorem fault_recovery_releases_pins_witness:
  "Keyboard_interrupt \<notin> set [Update (Callback (press ''relay-3''))] \<and>
   Keyboard_interrupt \<notin> set [Update (Get_relay_status caller), Polling_raises] \<and>
   fst (main_loop False
         ([Update (Callback (press ''relay-3''))] @
          Polling_raises # [Update (Get_relay_status caller), Polling_raises]) boot) = Listening \<and>
   channels (snd (main_loop False ([Update (Callback (press ''relay-3''))] @ [Polling_raises])
     boot)) = Map.empty \<and>
   GPIO_input 25 (snd (main_loop False ([Update (Callback (press ''relay-3''))] @ [Polling_raises])
     boot)) = Inl RuntimeError"
proof -
  have a: "Keyboard_interrupt \<notin> set [Update (Callback (press ''relay-3''))]" by simp
  have b: "Keyboard_interrupt \<notin> set [Update (Get_relay_status caller), Polling_raises]" by simp
  show ?thesis
    using a b fault_recovery_releases_pins [OF a b, of False boot 25] by blast
qed

subsection \<open>C5: the pins at start-up\<close>

text \<open>
  C5: \<open>initialize_relay\<close> returns and leaves each of the four pins of the table set up at
  HIGH, which the status query reports, for every relay, with the "off" emoji.
\<close>

theorem initialize_relay_all_off:
  "fst (initialize_relay w) = Return \<and>
   map (\<lambda>(relay_id, pin). channels (snd (initialize_relay w)) pin) dict_relay_bcm =
     [Some HIGH, Some HIGH, Some HIGH, Some HIGH] \<and>
   fst (get_relay_status_command m (snd (initialize_relay w))) = Return \<and>
   outbox (trace (snd (get_relay_status_command m (snd (initialize_relay w))))) =
     outbox (trace w) @
     map (\<lambda>(relay_id, pin). ''Status of the RelayId '' @ show_int relay_id @ '' '' @ em_status_off)
       dict_relay_bcm"
  by (auto simp add: initialize_relay_shape get_relay_status_shape dict_relay_bcm_def
      status_text_def outbox_def)

subsection \<open>C6: the order of acknowledgment, reply and display update\<close>

text \<open>
  C6, as the claim states it, fails: for a press of relay 2 in the world of the first
  poll, the display calls come before the acknowledgment and before the reply.
\<close>

theorem toggle_display_first_counterexample:
  "drop (length (trace ready)) (trace (snd (inline_query_callback (press ''relay-2'') ready))) =
     [Gpio_input 24, Gpio_output 24 LOW, Lcd_clear, Lcd_message (''Act. Relay 2'' @ nl),
      Lcd_message ''In listening...'', Answer_callback_query ''q1'',
      Send_message 7 '':red_circle: Changed status of the RelayId 2 :thumbsup:'' None]"
proof -
  have a: "startswith (query_data (press ''relay-2'')) ''relay-''"
    using press_prefix [of "''2''"] by simp
  have b: "py_int (drop 6 (query_data (press ''relay-2''))) = Inr 2"
    using press_rest [of "''2''"] by (simp add: py_int_2)
  have c: "map_of dict_relay_bcm 2 = Some 24" by (simp add: dict_relay_bcm_def)
  have d: "channels ready 24 = Some HIGH" by (simp add: ready_world)
  show ?thesis
    by (simp add: toggle_shape [OF a b c d] show_int_2 em_status_on_def em_status_changed_def
        press_chat press_id)
qed

text \<open>
  C6, amended: for every press that is handled successfully, the calls are, in this
  order: the pin is read, the pin is written and the display is updated (write then
  display on a HIGH reading, display then write on a LOW reading), the acknowledgment is
  issued, and the confirmation reply is sent last. So the acknowledgment precedes the
  reply, and the display update precedes both.
\<close>

theorem toggle_effect_order:
  assumes "startswith (query_data q) ''relay-''"
    and "py_int (drop 6 (query_data q)) = Inr n"
    and "map_of dict_relay_bcm n = Some pin"
    and "channels w pin = Some lv"
  shows "fst (inline_query_callback q w) = Return \<and>
         trace (snd (inline_query_callback q w)) =
           trace w
           @ (if lv
              then [Gpio_input pin, Gpio_output pin LOW, Lcd_clear,
                    Lcd_message (''Act. Relay '' @ show_int n @ nl),
                    Lcd_message ''In listening...'']
              else [Gpio_input pin, Lcd_clear,
                    Lcd_message (''De Act. Relay '' @ show_int n @ nl),
                    Lcd_message ''In listening...'', Gpio_output pin HIGH])
           @ [Answer_callback_query (query_id q),
              Send_message (chat_id (query_message q))
                (polarity (\<not> lv) @ '' Changed status of the RelayId '' @ show_int n @ '' ''
                   @ em_status_changed) None]"
  by (simp add: toggle_shape [OF assms])

text \<open>
  C6, amended, at relay 3 in the world of the first poll.
\<close>

theorem toggle_effect_order_witness:
  "startswith (query_data (press ''relay-3'')) ''relay-'' \<and>
   py_int (drop 6 (query_data (press ''relay-3''))) = Inr 3 \<and>
   map_of dict_relay_bcm 3 = Some 25 \<and>
   channels ready 25 = Some HIGH \<and>
   fst (inline_query_callback (press ''relay-3'') ready) = Return \<and>
   trace (snd (inline_query_callback (press ''relay-3'') ready)) =
     trace ready @
     [Gpio_input 25, Gpio_output 25 LOW, Lcd_clear, Lcd_message (''Act. Relay 3'' @ nl),
      Lcd_message ''In listening...'', Answer_callback_query ''q1'',
      Send_message 7 '':red_circle: Changed status of the RelayId 3 :thumbsup:'' None]"
proof -
  have a: "startswith (query_data (press ''relay-3'')) ''relay-''"
    using press_prefix [of "''3''"] by simp
  have b: "py_int (drop 6 (query_data (press ''relay-3''))) = Inr 3"
    using press_rest [of "''3''"] by (simp add: py_int_3)
  have c: "map_of dict_relay_bcm 3 = Some 25" by (simp add: dict_relay_bcm_def)
  have d: "channels ready 25 = Some HIGH" by (simp add: ready_world)
  show ?thesis
    using a b c d toggle_effect_order [OF a b c d]
    by (simp add: show_int_3 em_status_on_def em_status_changed_def press_chat press_id)
qed

subsection \<open>C7: the status lines\<close>

text \<open>
  C7: whatever the levels of the four pins, the status command returns and sends exactly
  four texts, for the relays 1, 2, 3, 4 in this order (the order of the table), each
  carrying the polarity of its own pin's level.
\<close>

theorem get_relay_status_lines:
  assumes "channels w 23 = Some l1" and "channels w 24 = Some l2"
    and "channels w 25 = Some l3" and "channels w 16 = Some l4"
  shows "fst (get_relay_status_command m w) = Return \<and>
         map fst dict_relay_bcm = [1, 2, 3, 4] \<and>
         trace (snd (get_relay_status_command m w)) =
           trace w @
           [Gpio_input 23,
            Send_message (chat_id m) (''Status of the RelayId 1 '' @ polarity l1) None,
            Gpio_input 24,
            Send_message (chat_id m) (''Status of the RelayId 2 '' @ polarity l2) None,
            Gpio_input 25,
            Send_message (chat_id m) (''Status of the RelayId 3 '' @ polarity l3) None,
            Gpio_input 16,
            Send_message (chat_id m) (''Status of the RelayId 4 '' @ polarity l4) None,
            Lcd_clear, Lcd_message (''Request Command'' @ nl),
            Lcd_message ''/get_relay_status''] \<and>
         outbox (trace (snd (get_relay_status_command m w))) =
           outbox (trace w) @
           [''Status of the RelayId 1 '' @ polarity l1,
            ''Status of the RelayId 2 '' @ polarity l2,
            ''Status of the RelayId 3 '' @ polarity l3,
            ''Status of the RelayId 4 '' @ polarity l4]"
  using assms
  by (simp add: get_relay_status_shape dict_relay_bcm_def status_text_polarity outbox_def
      show_int_1 show_int_2 show_int_3 show_int_4)

text \<open>
  C7 in the spec's scenario: relay 2 on, the others off (the world after one press of
  relay 2).
\<close>

theorem get_relay_status_lines_witness:
  "channels (snd (inline_query_callback (press ''relay-2'') ready)) 23 = Some HIGH \<and>
   channels (snd (inline_query_callback (press ''relay-2'') ready)) 24 = Some LOW \<and>
   channels (snd (inline_query_callback (press ''relay-2'') ready)) 25 = Some HIGH \<and>
   channels (snd (inline_query_callback (press ''relay-2'') ready)) 16 = Some HIGH \<and>
   fst (get_relay_status_command caller (snd (inline_query_callback (press ''relay-2'') ready))) =
     Return \<and>
   outbox (trace (snd (get_relay_status_command caller
       (snd (inline_query_callback (press ''relay-2'') ready))))) =
     outbox (trace (snd (inline_query_callback (press ''relay-2'') ready))) @
     [''Status of the RelayId 1 :black_circle:'', ''Status of the RelayId 2 :red_circle:'',
      ''Status of the RelayId 3 :black_circle:'', ''Status of the RelayId 4 :black_circle:'']"
proof -
  have a: "startswith (query_data (press ''relay-2'')) ''relay-''"
    using press_prefix [of "''2''"] by simp
  have b: "py_int (drop 6 (query_data (press ''relay-2''))) = Inr 2"
    using press_rest [of "''2''"] by (simp add: py_int_2)
  have c: "map_of dict_relay_bcm 2 = Some 24" by (simp add: dict_relay_bcm_def)
  have d: "channels ready 24 = Some HIGH" by (simp add: ready_world)
  have ch: "channels (snd (inline_query_callback (press ''relay-2'') ready)) =
      (channels ready)(24 \<mapsto> LOW)"
    by (simp add: toggle_shape [OF a b c d])
  have l1: "channels (snd (inline_query_callback (press ''relay-2'') ready)) 23 = Some HIGH"
    unfolding ch by (simp add: ready_world)
  have l2: "channels (snd (inline_query_callback (press ''relay-2'') ready)) 24 = Some LOW"
    by (simp add: ch)
  have l3: "channels (snd (inline_query_callback (press ''relay-2'') ready)) 25 = Some HIGH"
    unfolding ch by (simp add: ready_world)
  have l4: "channels (snd (inline_query_callback (press ''relay-2'') ready)) 16 = Some HIGH"
    unfolding ch by (simp add: ready_world)
  show ?thesis
    using l1 l2 l3 l4 get_relay_status_lines [OF l1 l2 l3 l4, of caller]
    by (simp add: em_status_on_def em_status_off_def outbox_def)
qed

subsection \<open>C8: the status command writes no pin\<close>

text \<open>
  C8: in every world, the status command leaves the level of every pin as it was and
  makes no call that writes a pin; a second call right after the first has the same
  outcome and makes the same calls, so it sends the same texts.
\<close>

theorem get_relay_status_reads_only:
  "channels (snd (get_relay_status_command m w)) = channels w \<and>
   filter is_pin_write (drop (length (trace w)) (trace (snd (get_relay_status_command m w)))) = [] \<and>
   fst (get_relay_status_command m (snd (get_relay_status_command m w))) =
     fst (get_relay_status_command m w) \<and>
   drop (length (trace (snd (get_relay_status_command m w))))
        (trace (snd (get_relay_status_command m (snd (get_relay_status_command m w))))) =
     drop (length (trace w)) (trace (snd (get_relay_status_command m w)))"
proof -
  have c1: "channels (snd (get_relay_status_command m w)) = channels w"
    using get_relay_status_pins [of m w] by blast
  show ?thesis
    using get_relay_status_pins [of m w] get_relay_status_same_pins [OF c1, of m] by blast
qed

subsection \<open>C9: initialization runs once\<close>



subsection \<open>C10: callbacks that are not relay presses\<close>

text \<open>
  C10: a callback whose data does not start with \<^verbatim>\<open>relay-\<close> is handled by doing
  nothing: the handler returns and the world, trace included, is the same, so no pin is
  read or written, the display is unchanged and nothing is sent.
\<close>

theorem other_callback_ignored:
  "\<not> startswith (query_data q) ''relay-'' \<Longrightarrow> inline_query_callback q w = (Return, w)"
  by (simp add: inline_query_callback_def)

text \<open>
  C10 at the data \<^verbatim>\<open>hello\<close>.
\<close>

theorem other_callback_ignored_witness:
  "\<not> startswith (query_data (press ''hello'')) ''relay-'' \<and>
   inline_query_callback (press ''hello'') ready = (Return, ready)"
proof -
  have h: "\<not> startswith (query_data (press ''hello'')) ''relay-''"
    by (simp add: press_def startswith_def)
  show ?thesis using h other_callback_ignored [OF h, of ready] by simp
qed

end
